theory Spec2Isabelle
  imports Main "HOL-Library.AList" "HOL-Library.Sublist" "HOL-Library.Word"
begin

unbundle bit_operations_syntax

text \<open>
  The program is one Streamlit page, \<^verbatim>\<open>streamlit_app.py\<close>: it reads a transcript, asks a
  generative model for the minutes as JSON, keeps them in the session state and shows them.
  Modelled here are its functions \<^verbatim>\<open>load_api_key\<close>, \<^verbatim>\<open>_blank_minutes\<close>,
  \<^verbatim>\<open>get_genai_client\<close>, \<^verbatim>\<open>summarize_meeting\<close> and \<^verbatim>\<open>format_action_item\<close>, and, of the
  page's top-level code, the initialisation of the session state, the handler of the
  generate button, the arguments of the download button and the handler of the clear
  button. What the libraries do (\<^verbatim>\<open>st.secrets\<close>, \<^verbatim>\<open>os.getenv\<close>, \<^verbatim>\<open>genai.Client\<close>, the
  service's answer, \<^verbatim>\<open>json.loads\<close>, \<^verbatim>\<open>float.__repr__\<close>) is a parameter of the function that
  calls them; \<^verbatim>\<open>json.dumps\<close>, \<^verbatim>\<open>str.strip\<close> and \<^verbatim>\<open>str.join\<close> are written out. The markup of
  the four tabs is not modelled.
\<close>

section \<open>Python values\<close>

text \<open>
  A Python \<^verbatim>\<open>str\<close> is a sequence of Unicode code points, so it is modelled as a list
  of naturals; \<open>py_str\<close> reads an ASCII literal of the source. The em dash of
  \<^verbatim>\<open>format_action_item\<close> is the code point U+2014.
\<close>

type_synonym pystr = "nat list"

definition py_str :: "string \<Rightarrow> pystr" where
  "py_str s = map of_char s"

definition em_dash :: nat where
  "em_dash = 0x2014"

text \<open>
  A \<^verbatim>\<open>dict\<close> keeps its keys in insertion order: an association list in which every key
  occurs once. \<^verbatim>\<open>d.get(k)\<close> is \<open>dict_get d k\<close>, with \<open>None\<close> for Python's
  \<^verbatim>\<open>None\<close>; \<^verbatim>\<open>d.get(k, default)\<close> is \<open>dict_get_default\<close>.
\<close>

type_synonym 'v pydict = "(pystr \<times> 'v) list"

definition dict_get :: "'v pydict \<Rightarrow> pystr \<Rightarrow> 'v option" where
  "dict_get d k = map_of d k"

definition dict_get_default :: "'v pydict \<Rightarrow> pystr \<Rightarrow> 'v \<Rightarrow> 'v" where
  "dict_get_default d k dflt = (case dict_get d k of Some v \<Rightarrow> v | None \<Rightarrow> dflt)"

definition dict_keys :: "'v pydict \<Rightarrow> pystr list" where
  "dict_keys d = map fst d"

text \<open>\<^verbatim>\<open>sep.join(parts)\<close>.\<close>

fun py_join :: "pystr \<Rightarrow> pystr list \<Rightarrow> pystr" where
  "py_join sep [] = []"
| "py_join sep [x] = x"
| "py_join sep (x # y # ys) = x @ sep @ py_join sep (y # ys)"

text \<open>
  The truth value of an optional text in \<^verbatim>\<open>if due:\<close>: \<^verbatim>\<open>None\<close> and the empty string are
  false.
\<close>

definition str_truthy :: "pystr option \<Rightarrow> bool" where
  "str_truthy v = (case v of None \<Rightarrow> False | Some s \<Rightarrow> s \<noteq> [])"

text \<open>
  Exceptions are values. Each constructor carries \<^verbatim>\<open>str(exc)\<close>; \<open>OtherException\<close> carries
  the class name too and stands for every other subclass of \<^verbatim>\<open>Exception\<close> (what the
  secrets store, the client constructor or the service raise).
\<close>

datatype exn =
    JSONDecodeError pystr
  | TypeError pystr
  | ValueError pystr
  | KeyError pystr
  | OtherException pystr pystr

fun exn_str :: "exn \<Rightarrow> pystr" where
  "exn_str (JSONDecodeError m) = m"
| "exn_str (TypeError m) = m"
| "exn_str (ValueError m) = m"
| "exn_str (KeyError m) = m"
| "exn_str (OtherException c m) = m"

section \<open>Credential resolver\<close>

text \<open>
  \<^verbatim>\<open>st.secrets[key]\<close> either raises (no secrets file, no such key) or yields the stored
  text; \<^verbatim>\<open>os.getenv(key)\<close> yields \<^verbatim>\<open>None\<close> or the variable's text.
\<close>

type_synonym secrets = "pystr \<Rightarrow> exn + pystr"
type_synonym environ = "pystr \<Rightarrow> pystr option"

definition GEMINI_API_KEY :: pystr where
  "GEMINI_API_KEY = py_str ''GEMINI_API_KEY''"

text \<open>
  \<^verbatim>\<open>
  def load_api_key() -> str:
      try:
          api_key = st.secrets["GEMINI_API_KEY"]
          if api_key:
              return api_key
      except Exception:
          api_key = None
      api_key = os.getenv("GEMINI_API_KEY")
      if api_key:
          return api_key
      return ""
  \<close>
  The \<^verbatim>\<open>try\<close> block either raises, returns from the function (\<open>Some\<close>) or falls through
  (\<open>None\<close>); the handler catches every exception and falls through as well.
\<close>

definition load_api_key_try :: "secrets \<Rightarrow> exn + pystr option" where
  "load_api_key_try st_secrets =
     (case st_secrets GEMINI_API_KEY of
        Inl e \<Rightarrow> Inl e
      | Inr api_key \<Rightarrow> if api_key \<noteq> [] then Inr (Some api_key) else Inr None)"

definition load_api_key_env :: "environ \<Rightarrow> exn + pystr" where
  "load_api_key_env os_getenv =
     (let api_key = os_getenv GEMINI_API_KEY
      in if str_truthy api_key then Inr (the api_key) else Inr [])"

definition load_api_key :: "secrets \<Rightarrow> environ \<Rightarrow> exn + pystr" where
  "load_api_key st_secrets os_getenv =
     (case load_api_key_try st_secrets of
        Inr (Some api_key) \<Rightarrow> Inr api_key
      | Inr None \<Rightarrow> load_api_key_env os_getenv
      | Inl e \<Rightarrow> load_api_key_env os_getenv)"

text \<open>
  The contract in the specification's words: the values found, in priority order (a lookup
  that raises finds nothing), and the first non-empty one of them, or the empty string.
\<close>

definition credentials_found :: "secrets \<Rightarrow> environ \<Rightarrow> pystr list" where
  "credentials_found st_secrets os_getenv =
     (case st_secrets GEMINI_API_KEY of Inl e \<Rightarrow> [] | Inr v \<Rightarrow> [v])
     @ (case os_getenv GEMINI_API_KEY of None \<Rightarrow> [] | Some v \<Rightarrow> [v])"

definition first_non_empty :: "pystr list \<Rightarrow> pystr" where
  "first_non_empty vs = (case filter (\<lambda>v. v \<noteq> []) vs of [] \<Rightarrow> [] | v # _ \<Rightarrow> v)"

section \<open>Action item formatter\<close>

text \<open>
  \<^verbatim>\<open>
  def format_action_item(item: dict) -> str:
      owner = item.get("owner", "Unassigned")
      task = item.get("task", "Task not specified")
      due = item.get("due")
      priority = item.get("priority")
      parts = [f"**{owner}** -- {task}"]
      if due:
          parts.append(f"**Due:** {due}")
      if priority:
          parts.append(f"**Priority:** {priority}")
      return " | ".join(parts)
  \<close>
  (\<^verbatim>\<open>--\<close> stands for the em dash of the source.) An action item is a record of text
  fields, each of which may be missing: a dictionary from field names to text.
\<close>

type_synonym action_item = "pystr pydict"

definition format_action_item :: "action_item \<Rightarrow> pystr" where
  "format_action_item item =
     (let owner = dict_get_default item (py_str ''owner'') (py_str ''Unassigned'');
          task = dict_get_default item (py_str ''task'') (py_str ''Task not specified'');
          due = dict_get item (py_str ''due'');
          priority = dict_get item (py_str ''priority'');
          parts = [py_str ''**'' @ owner @ py_str ''** '' @ [em_dash] @ py_str '' '' @ task];
          parts = (if str_truthy due then parts @ [py_str ''**Due:** '' @ the due] else parts);
          parts = (if str_truthy priority
                   then parts @ [py_str ''**Priority:** '' @ the priority] else parts)
      in py_join (py_str '' | '') parts)"

section \<open>JSON values and dictionaries\<close>

text \<open>
  The values \<^verbatim>\<open>json.loads\<close> builds: \<^verbatim>\<open>None\<close>, booleans, unbounded integers, floats
  (the 64 bits of the IEEE double), strings, lists and dictionaries with string keys.
\<close>

datatype pyval =
    PyNone
  | PyBool bool
  | PyInt int
  | PyFloat "64 word"
  | PyStr pystr
  | PyList "pyval list"
  | PyDict "(pystr \<times> pyval) list"

text \<open>\<^verbatim>\<open>type(v).__name__\<close>.\<close>

fun type_name :: "pyval \<Rightarrow> pystr" where
  "type_name PyNone = py_str ''NoneType''"
| "type_name (PyBool b) = py_str ''bool''"
| "type_name (PyInt i) = py_str ''int''"
| "type_name (PyFloat x) = py_str ''float''"
| "type_name (PyStr s) = py_str ''str''"
| "type_name (PyList xs) = py_str ''list''"
| "type_name (PyDict d) = py_str ''dict''"


definition float_is_nan :: "64 word \<Rightarrow> bool" where
  "float_is_nan x =
     (x AND 0x7FF0000000000000 = 0x7FF0000000000000 \<and> x AND 0x000FFFFFFFFFFFFF \<noteq> 0)"


text \<open>
  \<^verbatim>\<open>d[k] = v\<close> keeps the place of a key that is there and appends a new one, which is
  \<open>AList.update\<close>; \<^verbatim>\<open>{**d, **other}\<close> stores the items of \<open>other\<close> into a copy of
  \<open>d\<close> one after the other, and raises \<^verbatim>\<open>TypeError\<close> when \<open>other\<close> is not a mapping.
\<close>

definition dict_update :: "'v pydict \<Rightarrow> 'v pydict \<Rightarrow> 'v pydict" where
  "dict_update d other = fold (\<lambda>kv acc. AList.update (fst kv) (snd kv) acc) other d"

definition dict_unpack :: "pyval pydict \<Rightarrow> pyval \<Rightarrow> exn + pyval pydict" where
  "dict_unpack d other =
     (case other of
        PyDict items \<Rightarrow> Inr (dict_update d items)
      | _ \<Rightarrow> Inl (TypeError ([39] @ type_name other @ [39] @ py_str '' object is not a mapping'')))"

section \<open>Minutes generator\<close>

text \<open>
  \<^verbatim>\<open>
  def _blank_minutes():
      return {"summary": "", "key_points": [], "decisions": [],
              "action_items": [], "risks_open_questions": []}
  \<close>
\<close>

definition blank_minutes :: "pyval pydict" where
  "blank_minutes =
     [(py_str ''summary'', PyStr []),
      (py_str ''key_points'', PyList []),
      (py_str ''decisions'', PyList []),
      (py_str ''action_items'', PyList []),
      (py_str ''risks_open_questions'', PyList [])]"

text \<open>The five fields of the Minutes record, as the data model lists them.\<close>

definition minutes_fields :: "pystr list" where
  "minutes_fields =
     [py_str ''summary'', py_str ''key_points'', py_str ''decisions'',
      py_str ''action_items'', py_str ''risks_open_questions'']"

text \<open>
  The request of \<^verbatim>\<open>client.models.generate_content\<close>: the model's name, the contents (one
  message, with its role and the texts of its parts) and the response MIME type of the
  configuration. A client answers a request with the response's text or raises; the
  requests sent are logged, so that a run's network calls can be counted.
\<close>

record content =
  content_role :: pystr
  content_parts :: "pystr list"

record request =
  req_model :: pystr
  req_contents :: "content list"
  req_response_mime_type :: pystr

type_synonym client = "request \<Rightarrow> exn + pystr"

definition generate_content :: "client \<Rightarrow> request \<Rightarrow> request list \<Rightarrow> (exn + pystr) \<times> request list" where
  "generate_content client req sent = (client req, sent @ [req])"

definition system_instruction :: pystr where
  "system_instruction =
     py_str ''You are an AI meeting assistant. Read the meeting transcript and ''
     @ py_str ''produce ONLY a JSON object with this schema:'' @ [10]
     @ py_str ''{'' @ [10]
     @ py_str ''  \"summary\": \"short paragraph\",'' @ [10]
     @ py_str ''  \"key_points\": [\"point 1\", \"point 2\"],'' @ [10]
     @ py_str ''  \"decisions\": [\"decision 1\", \"decision 2\"],'' @ [10]
     @ py_str ''  \"action_items\": ['' @ [10]
     @ py_str ''    {'' @ [10]
     @ py_str ''      \"owner\": \"Name\",'' @ [10]
     @ py_str ''      \"task\": \"what to do\",'' @ [10]
     @ py_str ''      \"due\": \"deadline or empty string\",'' @ [10]
     @ py_str ''      \"priority\": \"High | Medium | Low\"'' @ [10]
     @ py_str ''    }'' @ [10]
     @ py_str ''  ],'' @ [10]
     @ py_str ''  \"risks_open_questions\": ['' @ [10]
     @ py_str ''    \"risk or open question 1\",'' @ [10]
     @ py_str ''    \"risk or open question 2\"'' @ [10]
     @ py_str ''  ]'' @ [10]
     @ py_str ''}'' @ [10]
     @ py_str ''Rules:'' @ [10]
     @ py_str ''1) Always return valid JSON.'' @ [10]
     @ py_str ''2) Do not include any extra text before or after the JSON.'' @ [10]
     @ py_str ''3) Infer reasonable owners, due dates (or \"\" if none), and priorities ''
     @ py_str ''for the action_items based on the transcript.'' @ [10]
     @ py_str ''4) Include both risks and open questions together in ''
     @ [39] @ py_str ''risks_open_questions'' @ [39] @ py_str ''.''"

definition summarize_request :: "pystr \<Rightarrow> request" where
  "summarize_request transcript =
     \<lparr>req_model = py_str ''gemini-2.5-flash'',
      req_contents =
        [\<lparr>content_role = py_str ''user'',
          content_parts =
            [system_instruction, py_str ''Meeting transcript:'' @ [10] @ transcript]\<rparr>],
      req_response_mime_type = py_str ''application/json''\<rparr>"

text \<open>
  \<^verbatim>\<open>
      raw_text = response.text
      try:
          parsed = json.loads(raw_text)
          return {**_blank_minutes(), **parsed}
      except json.JSONDecodeError:
          return {"raw_response": raw_text}
  \<close>
  \<^verbatim>\<open>json.loads\<close> is the standard library's parser and is a parameter: it yields the parsed
  value or raises. The \<^verbatim>\<open>except\<close> clause catches \<^verbatim>\<open>JSONDecodeError\<close> alone, whether the
  parser or the merge raised; every other exception leaves the function.
\<close>

definition summarize_parse :: "(pystr \<Rightarrow> exn + pyval) \<Rightarrow> pystr \<Rightarrow> exn + pyval pydict" where
  "summarize_parse json_loads raw_text =
     (case (case json_loads raw_text of
              Inl e \<Rightarrow> Inl e
            | Inr parsed \<Rightarrow> dict_unpack blank_minutes parsed) of
        Inl (JSONDecodeError m) \<Rightarrow> Inr [(py_str ''raw_response'', PyStr raw_text)]
      | Inl e \<Rightarrow> Inl e
      | Inr summary \<Rightarrow> Inr summary)"

text \<open>
  \<open>summarize_meeting\<close> sends one request; an exception of the call is not caught here.
\<close>

definition summarize_meeting ::
  "(pystr \<Rightarrow> exn + pyval) \<Rightarrow> client \<Rightarrow> pystr \<Rightarrow> request list
     \<Rightarrow> (exn + pyval pydict) \<times> request list" where
  "summarize_meeting json_loads client transcript sent =
     (case generate_content client (summarize_request transcript) sent of
        (Inl e, sent') \<Rightarrow> (Inl e, sent')
      | (Inr raw_text, sent') \<Rightarrow> (summarize_parse json_loads raw_text, sent'))"

section \<open>\<^verbatim>\<open>json.dumps\<close>\<close>

text \<open>
  The encoder of the standard library, for the arguments the program passes:
  \<^verbatim>\<open>ensure_ascii\<close> and an integer \<^verbatim>\<open>indent\<close> (\<open>None\<close> for the compact form). The text of a
  finite float that is not special is \<^verbatim>\<open>float.__repr__\<close>, a parameter.
\<close>

function py_nat_repr :: "nat \<Rightarrow> pystr" where
  "py_nat_repr n = (if n < 10 then [48 + n] else py_nat_repr (n div 10) @ [48 + n mod 10])"
  by pat_completeness auto
termination
  by (relation "measure (\<lambda>n. n)") auto

declare py_nat_repr.simps [simp del]

definition py_int_repr :: "int \<Rightarrow> pystr" where
  "py_int_repr i = (if i < 0 then 45 # py_nat_repr (nat (- i)) else py_nat_repr (nat i))"

definition hex_digit :: "nat \<Rightarrow> nat" where
  "hex_digit d = (if d < 10 then 48 + d else 87 + d)"

text \<open>\<^verbatim>\<open>'{0:04x}'.format(n)\<close>, for \<open>n\<close> below \<open>0x10000\<close>.\<close>

definition hex4 :: "nat \<Rightarrow> pystr" where
  "hex4 n = map hex_digit [n div 4096 mod 16, n div 256 mod 16, n div 16 mod 16, n mod 16]"

text \<open>
  The escape table of the encoder: backslash, the double quote, the five short escapes,
  and \<^verbatim>\<open>\u00XX\<close> for the other control characters.
\<close>

definition escape_dct :: "nat \<Rightarrow> pystr option" where
  "escape_dct c =
     (if c = 0x5C then Some [0x5C, 0x5C]
      else if c = 0x22 then Some [0x5C, 0x22]
      else if c = 0x08 then Some (0x5C # py_str ''b'')
      else if c = 0x0C then Some (0x5C # py_str ''f'')
      else if c = 0x0A then Some (0x5C # py_str ''n'')
      else if c = 0x0D then Some (0x5C # py_str ''r'')
      else if c = 0x09 then Some (0x5C # py_str ''t'')
      else if c < 0x20 then Some (0x5C # py_str ''u'' @ hex4 c)
      else None)"

text \<open>
  \<^verbatim>\<open>py_encode_basestring\<close> (\<^verbatim>\<open>ensure_ascii=False\<close>) replaces the characters of the table
  and keeps every other one; \<^verbatim>\<open>py_encode_basestring_ascii\<close> also replaces every
  character outside \<^verbatim>\<open>' '..'~'\<close> by its \<^verbatim>\<open>\uXXXX\<close> escape, a surrogate pair above the
  basic plane.
\<close>

definition escape_char :: "nat \<Rightarrow> pystr" where
  "escape_char c = (case escape_dct c of Some r \<Rightarrow> r | None \<Rightarrow> [c])"

definition escape_char_ascii :: "nat \<Rightarrow> pystr" where
  "escape_char_ascii c =
     (if c = 0x5C \<or> c = 0x22 \<or> c < 0x20 \<or> 0x7E < c
      then (case escape_dct c of
              Some r \<Rightarrow> r
            | None \<Rightarrow>
                if c < 0x10000 then 0x5C # py_str ''u'' @ hex4 c
                else 0x5C # py_str ''u'' @ hex4 (0xD800 + (c - 0x10000) div 1024 mod 1024)
                   @ 0x5C # py_str ''u'' @ hex4 (0xDC00 + (c - 0x10000) mod 1024))
      else [c])"

definition encode_basestring :: "bool \<Rightarrow> pystr \<Rightarrow> pystr" where
  "encode_basestring ensure_ascii s =
     [0x22] @ concat (map (if ensure_ascii then escape_char_ascii else escape_char) s) @ [0x22]"

definition floatstr :: "(64 word \<Rightarrow> pystr) \<Rightarrow> 64 word \<Rightarrow> pystr" where
  "floatstr float_repr x =
     (if float_is_nan x then py_str ''NaN''
      else if x = 0x7FF0000000000000 then py_str ''Infinity''
      else if x = 0xFFF0000000000000 then py_str ''-Infinity''
      else float_repr x)"

definition newline_indent :: "nat option \<Rightarrow> nat \<Rightarrow> pystr" where
  "newline_indent indent level =
     (case indent of None \<Rightarrow> [] | Some n \<Rightarrow> 10 # replicate (n * level) 32)"

definition item_separator :: "nat option \<Rightarrow> pystr" where
  "item_separator indent = (case indent of None \<Rightarrow> py_str '', '' | Some n \<Rightarrow> py_str '','')"

fun iterencode :: "(64 word \<Rightarrow> pystr) \<Rightarrow> bool \<Rightarrow> nat option \<Rightarrow> nat \<Rightarrow> pyval \<Rightarrow> pystr" where
  "iterencode float_repr ensure_ascii indent level PyNone = py_str ''null''"
| "iterencode float_repr ensure_ascii indent level (PyBool b) =
     (if b then py_str ''true'' else py_str ''false'')"
| "iterencode float_repr ensure_ascii indent level (PyInt i) = py_int_repr i"
| "iterencode float_repr ensure_ascii indent level (PyFloat x) = floatstr float_repr x"
| "iterencode float_repr ensure_ascii indent level (PyStr s) = encode_basestring ensure_ascii s"
| "iterencode float_repr ensure_ascii indent level (PyList lst) =
     (if lst = [] then py_str ''[]''
      else py_str ''['' @ newline_indent indent (level + 1)
        @ py_join (item_separator indent @ newline_indent indent (level + 1))
            (map (iterencode float_repr ensure_ascii indent (level + 1)) lst)
        @ newline_indent indent level @ py_str '']'')"
| "iterencode float_repr ensure_ascii indent level (PyDict dct) =
     (if dct = [] then py_str ''{}''
      else py_str ''{'' @ newline_indent indent (level + 1)
        @ py_join (item_separator indent @ newline_indent indent (level + 1))
            (map (\<lambda>kv. encode_basestring ensure_ascii (fst kv) @ py_str '': ''
                    @ iterencode float_repr ensure_ascii indent (level + 1) (snd kv)) dct)
        @ newline_indent indent level @ py_str ''}'')"

definition json_dumps :: "(64 word \<Rightarrow> pystr) \<Rightarrow> bool \<Rightarrow> nat option \<Rightarrow> pyval \<Rightarrow> pystr" where
  "json_dumps float_repr ensure_ascii indent obj = iterencode float_repr ensure_ascii indent 0 obj"

section \<open>Session state and the handlers of the page\<close>

text \<open>
  \<^verbatim>\<open>str.strip()\<close> removes the white space at both ends; \<open>py_isspace\<close> lists the code
  points Python counts as white space.
\<close>

definition py_isspace :: "nat \<Rightarrow> bool" where
  "py_isspace c =
     ((0x09 \<le> c \<and> c \<le> 0x0D) \<or> (0x1C \<le> c \<and> c \<le> 0x20) \<or> c = 0x85 \<or> c = 0xA0
      \<or> c = 0x1680 \<or> (0x2000 \<le> c \<and> c \<le> 0x200A) \<or> c = 0x2028 \<or> c = 0x2029
      \<or> c = 0x202F \<or> c = 0x205F \<or> c = 0x3000)"

definition py_strip :: "pystr \<Rightarrow> pystr" where
  "py_strip s = rev (dropWhile py_isspace (rev (dropWhile py_isspace s)))"

text \<open>
  \<^verbatim>\<open>st.session_state\<close> holds three keys. \<^verbatim>\<open>raw_response\<close> is a value, not a text: the
  handler stores \<^verbatim>\<open>summary["raw_response"]\<close> there. Before the first run of a session a
  key may be missing; the page sets each missing key to its empty value.
  \<^verbatim>\<open>
  if "minutes" not in st.session_state:
      st.session_state.minutes = _blank_minutes()
  if "raw_json" not in st.session_state:
      st.session_state.raw_json = ""
  if "raw_response" not in st.session_state:
      st.session_state.raw_response = ""
  \<close>
\<close>

record session_state =
  minutes :: "pyval pydict"
  raw_json :: pystr
  raw_response :: pyval

record stored_state =
  stored_minutes :: "pyval pydict option"
  stored_raw_json :: "pystr option"
  stored_raw_response :: "pyval option"

definition init_session_state :: "stored_state \<Rightarrow> session_state" where
  "init_session_state stored =
     \<lparr>minutes = (case stored_minutes stored of None \<Rightarrow> blank_minutes | Some m \<Rightarrow> m),
      raw_json = (case stored_raw_json stored of None \<Rightarrow> [] | Some j \<Rightarrow> j),
      raw_response = (case stored_raw_response stored of None \<Rightarrow> PyStr [] | Some r \<Rightarrow> r)\<rparr>"

text \<open>
  What a run of the page acts on: the session state, the messages it displays
  (\<^verbatim>\<open>st.warning\<close>, \<^verbatim>\<open>st.error\<close>, \<^verbatim>\<open>st.success\<close>) and the requests it sends to the service.
\<close>

datatype element = St_warning pystr | St_error pystr | St_success pystr

record app =
  session :: session_state
  shown :: "element list"
  sent :: "request list"

definition display :: "element \<Rightarrow> app \<Rightarrow> app" where
  "display el a = a\<lparr>shown := shown a @ [el]\<rparr>"

text \<open>
  \<^verbatim>\<open>
  def get_genai_client(api_key: str):
      if not api_key:
          raise ValueError("No Gemini API key found. ...")
      return genai.Client(api_key=api_key)
  \<close>
  The constructor \<^verbatim>\<open>genai.Client\<close> is a parameter. \<^verbatim>\<open>st.cache_resource\<close> keeps the client
  built for a key; the cache is not modelled, the constructor being a function of the key.
\<close>

definition get_genai_client :: "(pystr \<Rightarrow> exn + client) \<Rightarrow> pystr \<Rightarrow> exn + client" where
  "get_genai_client genai_Client api_key =
     (if api_key = []
      then Inl (ValueError
        (py_str ''No Gemini API key found. Use config.json, an environment variable, ''
         @ py_str ''or Streamlit secrets to provide GEMINI_API_KEY.''))
      else genai_Client api_key)"

text \<open>
  The body of the handler's \<^verbatim>\<open>try\<close> block: the state it leaves, and the exception that
  ended it, if one did.
  \<^verbatim>\<open>
  client = get_genai_client(api_key)
  summary = summarize_meeting(client, transcript.strip())
  if "raw_response" in summary:
      st.error("Model returned malformed JSON. See raw output below.")
      st.session_state.raw_response = summary["raw_response"]
      st.session_state.raw_json = ""
  else:
      st.session_state.minutes = summary
      st.session_state.raw_json = json.dumps(summary, indent=2, ensure_ascii=False)
      st.session_state.raw_response = ""
      st.success("Minutes generated successfully!")
  \<close>
\<close>

definition generate_try ::
  "(pystr \<Rightarrow> exn + pyval) \<Rightarrow> (64 word \<Rightarrow> pystr) \<Rightarrow> (pystr \<Rightarrow> exn + client)
     \<Rightarrow> pystr \<Rightarrow> pystr \<Rightarrow> app \<Rightarrow> exn option \<times> app" where
  "generate_try json_loads float_repr genai_Client transcript api_key a =
     (case get_genai_client genai_Client api_key of
        Inl e \<Rightarrow> (Some e, a)
      | Inr client \<Rightarrow>
          (case summarize_meeting json_loads client (py_strip transcript) (sent a) of
             (Inl e, sent') \<Rightarrow> (Some e, a\<lparr>sent := sent'\<rparr>)
           | (Inr summary, sent') \<Rightarrow>
               (case dict_get summary (py_str ''raw_response'') of
                  Some raw \<Rightarrow>
                    (None,
                     (display
                        (St_error (py_str ''Model returned malformed JSON. See raw output below.''))
                        (a\<lparr>sent := sent'\<rparr>))
                     \<lparr>session := (session a)\<lparr>raw_response := raw, raw_json := []\<rparr>\<rparr>)
                | None \<Rightarrow>
                    (None,
                     display (St_success (py_str ''Minutes generated successfully!''))
                       (a\<lparr>sent := sent',
                          session :=
                            \<lparr>minutes = summary,
                             raw_json = json_dumps float_repr False (Some 2) (PyDict summary),
                             raw_response = PyStr []\<rparr>\<rparr>)))))"

text \<open>
  \<^verbatim>\<open>
  if generate_clicked:
      if not transcript.strip():
          st.warning("Please provide a transcript before generating minutes.")
      elif not api_key:
          st.error("No Gemini API key found. Provide it via config.json, ...")
      else:
          with st.spinner("Analyzing meeting..."):
              try:
                  ...
              except Exception as exc:
                  st.error(f"Failed to generate minutes: {exc}")
  \<close>
  The spinner is shown while the block runs and leaves nothing behind. The \<^verbatim>\<open>except\<close>
  clause catches every \<open>exn\<close>, the instances of \<^verbatim>\<open>Exception\<close>.
\<close>

definition generate_handler ::
  "(pystr \<Rightarrow> exn + pyval) \<Rightarrow> (64 word \<Rightarrow> pystr) \<Rightarrow> (pystr \<Rightarrow> exn + client)
     \<Rightarrow> bool \<Rightarrow> pystr \<Rightarrow> pystr \<Rightarrow> app \<Rightarrow> app" where
  "generate_handler json_loads float_repr genai_Client generate_clicked transcript api_key a =
     (if generate_clicked then
        if py_strip transcript = [] then
          display (St_warning (py_str ''Please provide a transcript before generating minutes.'')) a
        else if api_key = [] then
          display (St_error
            (py_str ''No Gemini API key found. Provide it via config.json, the environment, ''
             @ py_str ''or Streamlit secrets.'')) a
        else
          (case generate_try json_loads float_repr genai_Client transcript api_key a of
             (None, a') \<Rightarrow> a'
           | (Some exc, a') \<Rightarrow>
               display (St_error (py_str ''Failed to generate minutes: '' @ exn_str exc)) a')
      else a)"




text \<open>
  \<^verbatim>\<open>
  if st.button("... Clear Screen"):
      st.session_state.minutes = _blank_minutes()
      st.session_state.raw_json = ""
      st.session_state.raw_response = ""
      st.experimental_rerun()
  \<close>
  The rerun ends the run and starts the page again on the session state as it is left.
\<close>

definition clear_handler :: "bool \<Rightarrow> app \<Rightarrow> app" where
  "clear_handler clear_clicked a =
     (if clear_clicked
      then a\<lparr>session := (session a)\<lparr>minutes := blank_minutes, raw_json := [],
                                      raw_response := PyStr []\<rparr>\<rparr>
      else a)"

section \<open>The layout of the downloaded file\<close>

text \<open>
  The file's layout in the specification's words, to compare \<open>json_dumps\<close> with: a
  container that is not empty puts each member on a line of its own, two spaces further in
  than the container, with a comma after every member but the last, and closes on a line
  of its own; a string is written between double quotes with its characters as they are,
  but for the quote, the backslash and the control characters. \<open>indent_by n\<close> moves the
  lines of a text after the first \<open>n\<close> spaces to the right.
\<close>

definition indent_by :: "nat \<Rightarrow> pystr \<Rightarrow> pystr" where
  "indent_by n str = concat (map (\<lambda>c. if c = 10 then 10 # replicate n 32 else [c]) str)"


section \<open>JSON texts\<close>

text \<open>
  The specification speaks of a text that is not valid JSON. By the grammar of JSON
  (RFC 8259, sections 2 and 3) a JSON text is one value between optional white space (space,
  tab, line feed, carriage return), and a value is an object, an array, a string, a number
  or one of the names \<^verbatim>\<open>true\<close>, \<^verbatim>\<open>false\<close>, \<^verbatim>\<open>null\<close>: its first character is one of
  \<^verbatim>\<open>{ [ " - 0..9 t f n\<close>. \<open>json_text_start\<close> is this test of the first character: every JSON
  text passes it, so a text that fails it is not valid JSON. It follows the grammar, not the
  source: \<^verbatim>\<open>json.loads\<close> accepts more than the grammar (\<^verbatim>\<open>NaN\<close>, \<^verbatim>\<open>Infinity\<close>,
  \<^verbatim>\<open>-Infinity\<close>).
\<close>

definition json_ws :: "nat \<Rightarrow> bool" where
  "json_ws c = (c \<in> {0x20, 0x09, 0x0A, 0x0D})"

definition json_value_start :: "nat \<Rightarrow> bool" where
  "json_value_start c =
     (c \<in> set (py_str ''{[\"-tfn'') \<or> (0x30 \<le> c \<and> c \<le> 0x39))"

definition json_text_start :: "pystr \<Rightarrow> bool" where
  "json_text_start s =
     (case dropWhile json_ws s of [] \<Rightarrow> False | c # rest \<Rightarrow> json_value_start c)"

section \<open>Sample inputs\<close>

text \<open>
  The inputs the concrete evaluations below use: a transcript, a response of the model that
  is a JSON object with two of the five fields, what \<^verbatim>\<open>json.loads\<close> yields on the
  documents the evaluations pass to it (the object, the empty array, the text \<^verbatim>\<open>NaN\<close>, which
  it reads as the float NaN, of bits \<^verbatim>\<open>0x7FF8000000000000\<close>, and a text that it rejects), and
  the state of a session on its first run.
\<close>

definition sample_transcript :: pystr where
  "sample_transcript =
     py_str ''Alice: let'' @ [39] @ py_str ''s ship v2 by Friday. Bob: I'' @ [39]
     @ py_str ''ll write the release notes.''"

definition sample_response :: pystr where
  "sample_response =
     py_str ''{\"summary\":\"Team planned v2 release.\",\"action_items\":[{\"owner\":\"Bob\",''
     @ py_str ''\"task\":\"Write release notes\",\"due\":\"Friday\",\"priority\":\"Medium\"}]}''"

definition sample_parsed :: "pyval pydict" where
  "sample_parsed =
     [(py_str ''summary'', PyStr (py_str ''Team planned v2 release.'')),
      (py_str ''action_items'',
       PyList [PyDict [(py_str ''owner'', PyStr (py_str ''Bob'')),
                       (py_str ''task'', PyStr (py_str ''Write release notes'')),
                       (py_str ''due'', PyStr (py_str ''Friday'')),
                       (py_str ''priority'', PyStr (py_str ''Medium''))]])]"

definition sample_json_loads :: "pystr \<Rightarrow> exn + pyval" where
  "sample_json_loads s =
     (if s = sample_response then Inr (PyDict sample_parsed)
      else if s = py_str ''[]'' then Inr (PyList [])
      else if s = py_str ''NaN'' then Inr (PyFloat 0x7FF8000000000000)
      else Inl (JSONDecodeError (py_str ''Expecting value: line 1 column 1 (char 0)'')))"

definition first_run :: app where
  "first_run =
     \<lparr>session = init_session_state
        \<lparr>stored_minutes = None, stored_raw_json = None, stored_raw_response = None\<rparr>,
      shown = [], sent = []\<rparr>"



section \<open>Properties of the credential resolver\<close>

lemma load_api_key_env_eq:
  "load_api_key_env os_getenv =
     Inr (first_non_empty (case os_getenv GEMINI_API_KEY of None \<Rightarrow> [] | Some v \<Rightarrow> [v]))"
  by (simp add: load_api_key_env_def first_non_empty_def str_truthy_def Let_def
      split: option.splits)

text \<open>
  Claim C2. For every secrets store (raising, or holding a value) and every environment
  (variable set or not), \<open>load_api_key\<close> returns normally, and what it returns is the first
  non-empty text among the values found in the order secrets store, environment variable,
  or the empty string when there is none. An exception of the secrets lookup finds nothing
  and is never the result.
\<close>

theorem load_api_key_first_non_empty:
  "load_api_key st_secrets os_getenv =
     Inr (first_non_empty (credentials_found st_secrets os_getenv))"
  by (simp add: load_api_key_def load_api_key_try_def load_api_key_env_eq
      credentials_found_def first_non_empty_def split: sum.splits option.splits)

section \<open>Properties of the action item formatter\<close>

lemma format_action_item_parts:
  "format_action_item item =
     py_str ''**'' @ dict_get_default item (py_str ''owner'') (py_str ''Unassigned'')
       @ py_str ''** '' @ [em_dash] @ py_str '' ''
       @ dict_get_default item (py_str ''task'') (py_str ''Task not specified'')
       @ (if str_truthy (dict_get item (py_str ''due''))
          then py_str '' | **Due:** '' @ the (dict_get item (py_str ''due'')) else [])
       @ (if str_truthy (dict_get item (py_str ''priority''))
          then py_str '' | **Priority:** '' @ the (dict_get item (py_str ''priority'')) else [])"
  by (simp add: format_action_item_def Let_def py_str_def)

text \<open>
  Claim C4. \<open>format_action_item\<close> is a function of the record alone. For a record with
  owner, task, due and priority present, due and priority not empty, the line is
  \<^verbatim>\<open>**<owner>** -- <task> | **Due:** <due> | **Priority:** <priority>\<close> (with the em dash); for a
  record with the task alone it is \<^verbatim>\<open>**Unassigned** -- <task>\<close> with no delimiter after
  it; and whenever due and priority are missing or empty, nothing follows the task. For
  every record, the part of the due date and the part of the priority each stand in the line
  exactly when the field is present and not empty, whatever the other field is.
\<close>

theorem format_action_item_line:
  "(dict_get item (py_str ''owner'') = Some owner \<and> dict_get item (py_str ''task'') = Some task
      \<and> dict_get item (py_str ''due'') = Some due
      \<and> dict_get item (py_str ''priority'') = Some priority
      \<and> due \<noteq> [] \<and> priority \<noteq> []
    \<longrightarrow> format_action_item item =
          py_str ''**'' @ owner @ py_str ''** '' @ [em_dash] @ py_str '' '' @ task
          @ py_str '' | **Due:** '' @ due @ py_str '' | **Priority:** '' @ priority)
   \<and> (dict_get item (py_str ''task'') = Some task \<and> dict_get item (py_str ''owner'') = None
      \<and> dict_get item (py_str ''due'') = None \<and> dict_get item (py_str ''priority'') = None
    \<longrightarrow> format_action_item item =
          py_str ''**Unassigned** '' @ [em_dash] @ py_str '' '' @ task)
   \<and> (\<not> str_truthy (dict_get item (py_str ''due''))
      \<and> \<not> str_truthy (dict_get item (py_str ''priority''))
    \<longrightarrow> format_action_item item =
          py_str ''**'' @ dict_get_default item (py_str ''owner'') (py_str ''Unassigned'')
          @ py_str ''** '' @ [em_dash] @ py_str '' ''
          @ dict_get_default item (py_str ''task'') (py_str ''Task not specified''))
   \<and> format_action_item item =
          py_str ''**'' @ dict_get_default item (py_str ''owner'') (py_str ''Unassigned'')
          @ py_str ''** '' @ [em_dash] @ py_str '' ''
          @ dict_get_default item (py_str ''task'') (py_str ''Task not specified'')
          @ (if str_truthy (dict_get item (py_str ''due''))
             then py_str '' | **Due:** '' @ the (dict_get item (py_str ''due'')) else [])
          @ (if str_truthy (dict_get item (py_str ''priority''))
             then py_str '' | **Priority:** '' @ the (dict_get item (py_str ''priority''))
             else [])"
  by (simp add: format_action_item_parts dict_get_default_def str_truthy_def py_str_def)

theorem format_action_item_line_witness:
  "format_action_item
     [(py_str ''owner'', py_str ''Bob''), (py_str ''task'', py_str ''Write release notes''),
      (py_str ''due'', py_str ''Friday''), (py_str ''priority'', py_str ''Medium'')]
   = py_str ''**Bob** '' @ [em_dash]
       @ py_str '' Write release notes | **Due:** Friday | **Priority:** Medium''
   \<and> format_action_item [(py_str ''task'', py_str ''Write release notes'')]
   = py_str ''**Unassigned** '' @ [em_dash] @ py_str '' Write release notes''
   \<and> format_action_item
     [(py_str ''owner'', py_str ''Bob''), (py_str ''task'', py_str ''Write release notes''),
      (py_str ''due'', [])]
   = py_str ''**Bob** '' @ [em_dash] @ py_str '' Write release notes''"
  using
    format_action_item_line [of
      "[(py_str ''owner'', py_str ''Bob''), (py_str ''task'', py_str ''Write release notes''),
        (py_str ''due'', py_str ''Friday''), (py_str ''priority'', py_str ''Medium'')]"
      "py_str ''Bob''" "py_str ''Write release notes''" "py_str ''Friday''" "py_str ''Medium''"]
    format_action_item_line [of "[(py_str ''task'', py_str ''Write release notes'')]"
      "[]" "py_str ''Write release notes''" "[]" "[]"]
    format_action_item_line [of
      "[(py_str ''owner'', py_str ''Bob''), (py_str ''task'', py_str ''Write release notes''),
        (py_str ''due'', [])]" "[]" "[]" "[]" "[]"]
  by (simp add: dict_get_def dict_get_default_def str_truthy_def py_str_def)

text \<open>
  Claim C10. The defaults stand in for a missing key only. A record whose owner is present
  and empty gives a line that begins with \<^verbatim>\<open>**** -- \<close> and not with
  \<^verbatim>\<open>**Unassigned** -- \<close>, which is how the line begins when the owner is missing; a
  task that is present and empty leaves nothing after the dash, and \<^verbatim>\<open>Task not specified\<close>
  appears when the task is missing.
\<close>

theorem format_action_item_empty_owner:
  "(dict_get item (py_str ''owner'') = Some []
    \<longrightarrow> prefix (py_str ''**** '' @ [em_dash] @ py_str '' '') (format_action_item item)
        \<and> \<not> prefix (py_str ''**Unassigned** '' @ [em_dash] @ py_str '' '')
              (format_action_item item))
   \<and> (dict_get item (py_str ''owner'') = None
    \<longrightarrow> prefix (py_str ''**Unassigned** '' @ [em_dash] @ py_str '' '') (format_action_item item))
   \<and> (dict_get item (py_str ''task'') = Some []
        \<and> \<not> str_truthy (dict_get item (py_str ''due''))
        \<and> \<not> str_truthy (dict_get item (py_str ''priority''))
    \<longrightarrow> format_action_item item =
          py_str ''**'' @ dict_get_default item (py_str ''owner'') (py_str ''Unassigned'')
          @ py_str ''** '' @ [em_dash] @ py_str '' '')
   \<and> (dict_get item (py_str ''task'') = None
        \<and> \<not> str_truthy (dict_get item (py_str ''due''))
        \<and> \<not> str_truthy (dict_get item (py_str ''priority''))
    \<longrightarrow> format_action_item item =
          py_str ''**'' @ dict_get_default item (py_str ''owner'') (py_str ''Unassigned'')
          @ py_str ''** '' @ [em_dash] @ py_str '' Task not specified'')"
  by (simp add: format_action_item_parts dict_get_default_def py_str_def)

theorem format_action_item_empty_owner_witness:
  "dict_get [(py_str ''owner'', []), (py_str ''task'', py_str ''Ship v2'')] (py_str ''owner'')
     = Some []
   \<and> format_action_item [(py_str ''owner'', []), (py_str ''task'', py_str ''Ship v2'')]
     = py_str ''**** '' @ [em_dash] @ py_str '' Ship v2''
   \<and> prefix (py_str ''**** '' @ [em_dash] @ py_str '' '')
        (format_action_item [(py_str ''owner'', []), (py_str ''task'', py_str ''Ship v2'')])
   \<and> format_action_item [(py_str ''owner'', py_str ''Bob''), (py_str ''task'', [])]
     = py_str ''**Bob** '' @ [em_dash] @ py_str '' ''
   \<and> format_action_item []
     = py_str ''**Unassigned** '' @ [em_dash] @ py_str '' Task not specified''"
  using
    format_action_item_empty_owner
      [of "[(py_str ''owner'', []), (py_str ''task'', py_str ''Ship v2'')]"]
    format_action_item_empty_owner [of "[(py_str ''owner'', py_str ''Bob''), (py_str ''task'', [])]"]
    format_action_item_empty_owner [of "[]"]
  by (simp add: format_action_item_parts dict_get_def dict_get_default_def str_truthy_def
      py_str_def)

section \<open>Properties of the dictionary merge\<close>

lemma dict_update_Cons:
  "dict_update d (kv # other) = dict_update (AList.update (fst kv) (snd kv) d) other"
  by (simp add: dict_update_def)

lemma map_of_dict_update:
  "distinct (map fst other) \<Longrightarrow> map_of (dict_update d other) = map_of d ++ map_of other"
proof (induction other arbitrary: d)
  case Nil
  then show ?case by (simp add: dict_update_def)
next
  case (Cons kv other)
  from Cons.prems have fresh: "map_of other (fst kv) = None" and rest: "distinct (map fst other)"
    by (auto simp: map_of_eq_None_iff)
  have "map_of (dict_update d (kv # other))
      = map_of (AList.update (fst kv) (snd kv) d) ++ map_of other"
    unfolding dict_update_Cons by (rule Cons.IH [OF rest])
  also have "\<dots> = (map_of d)(fst kv \<mapsto> snd kv) ++ map_of other"
    by (simp only: update_conv')
  also have "\<dots> = map_of d ++ map_of (kv # other)"
  proof
    fix a
    show "((map_of d)(fst kv \<mapsto> snd kv) ++ map_of other) a = (map_of d ++ map_of (kv # other)) a"
      using fresh by (cases kv) (simp add: map_add_def split: option.splits)
  qed
  finally show ?case .
qed

lemma dict_keys_dict_update:
  "set (map fst other) \<subseteq> set (map fst d) \<Longrightarrow> map fst (dict_update d other) = map fst d"
proof (induction other arbitrary: d)
  case Nil
  then show ?case by (simp add: dict_update_def)
next
  case (Cons kv other)
  from Cons.prems have keys: "map fst (AList.update (fst kv) (snd kv) d) = map fst d"
    by (simp add: update_keys)
  with Cons.prems Cons.IH [of "AList.update (fst kv) (snd kv) d"] show ?case
    by (simp add: dict_update_Cons)
qed

lemma alist_eqI:
  "map fst xs = map fst ys \<Longrightarrow> distinct (map fst xs) \<Longrightarrow> map_of xs = map_of ys \<Longrightarrow> xs = ys"
proof (induction xs arbitrary: ys)
  case Nil
  then show ?case by simp
next
  case (Cons x xs)
  then obtain y ys' where ys: "ys = y # ys'" by (cases ys) auto
  from Cons.prems ys have k: "fst x = fst y" and ks: "map fst xs = map fst ys'"
    and d: "distinct (map fst xs)" by auto
  from Cons.prems(2) have nxs: "fst x \<notin> set (map fst xs)" by simp
  then have nx: "map_of xs (fst x) = None"
    by (simp add: map_of_eq_None_iff)
  from nxs ks have "fst x \<notin> set (map fst ys')" by simp
  then have ny: "map_of ys' (fst x) = None"
    by (simp add: map_of_eq_None_iff)
  have eq0: "map_of (x # xs) = map_of (y # ys')"
    using Cons.prems(3) unfolding ys .
  have eq: "map_of (x # xs) a = map_of (y # ys') a" for a
    by (rule fun_cong [OF eq0])
  from eq [of "fst x"] k have "snd x = snd y"
    by (cases x; cases y) simp
  with k have xy: "x = y" by (simp add: prod_eq_iff)
  have "map_of xs = map_of ys'"
  proof
    fix a
    show "map_of xs a = map_of ys' a"
    proof (cases "a = fst x")
      case True
      with nx ny show ?thesis by simp
    next
      case False
      with eq [of a] xy show ?thesis
        by (cases y) (simp split: if_splits)
    qed
  qed
  with Cons.IH [OF ks d] xy ys show ?case by simp
qed

section \<open>Properties of the minutes generator\<close>

lemma summarize_meeting_response:
  "client (summarize_request transcript) = Inr raw_text \<Longrightarrow>
   summarize_meeting json_loads client transcript log =
     (summarize_parse json_loads raw_text, log @ [summarize_request transcript])"
  by (simp add: summarize_meeting_def generate_content_def)

lemma summarize_parse_dict:
  "json_loads raw_text = Inr (PyDict parsed) \<Longrightarrow>
   summarize_parse json_loads raw_text = Inr (dict_update blank_minutes parsed)"
  by (simp add: summarize_parse_def dict_unpack_def)

lemma dict_keys_blank_minutes: "dict_keys blank_minutes = minutes_fields"
  by (simp add: dict_keys_def blank_minutes_def minutes_fields_def)

lemma distinct_minutes_fields: "distinct minutes_fields"
  by (simp add: minutes_fields_def py_str_def)

lemma dict_get_blank_minutes:
  "k \<in> set minutes_fields \<Longrightarrow>
   dict_get blank_minutes k = Some (if k = py_str ''summary'' then PyStr [] else PyList [])"
  by (auto simp: minutes_fields_def blank_minutes_def dict_get_def py_str_def)

text \<open>
  Claim C1. When the response's text parses as a JSON object whose keys are among the five
  Minutes fields, \<open>summarize_meeting\<close> returns a dictionary with exactly the five fields,
  in the order of the template; a field the object has keeps the object's value, a field it
  lacks has its empty default (the empty string for \<^verbatim>\<open>summary\<close>, the empty list for the
  others). An object with all five fields is returned as the same mapping, and as the very
  same dictionary when its keys come in the template's order.
\<close>

theorem summarize_meeting_merge:
  assumes response: "client (summarize_request transcript) = Inr raw_text"
    and parsed: "json_loads raw_text = Inr (PyDict parsed)"
    and once: "distinct (dict_keys parsed)"
    and subset: "set (dict_keys parsed) \<subseteq> set minutes_fields"
  shows "\<exists>summary.
      fst (summarize_meeting json_loads client transcript log) = Inr summary
      \<and> dict_keys summary = minutes_fields
      \<and> (\<forall>k \<in> set minutes_fields.
            dict_get summary k =
              Some (case dict_get parsed k of
                      Some v \<Rightarrow> v
                    | None \<Rightarrow> if k = py_str ''summary'' then PyStr [] else PyList []))
      \<and> (set (dict_keys parsed) = set minutes_fields \<longrightarrow> dict_get summary = dict_get parsed)
      \<and> (dict_keys parsed = minutes_fields \<longrightarrow> summary = parsed)"
proof -
  let ?summary = "dict_update blank_minutes parsed"
  have result: "fst (summarize_meeting json_loads client transcript log) = Inr ?summary"
    using response parsed by (simp add: summarize_meeting_response summarize_parse_dict)
  have keys: "dict_keys ?summary = minutes_fields"
    using subset dict_keys_dict_update [of parsed blank_minutes]
    by (simp add: dict_keys_def dict_keys_blank_minutes [unfolded dict_keys_def])
  have get: "dict_get ?summary = map_of blank_minutes ++ map_of parsed"
    using once map_of_dict_update [of parsed blank_minutes]
    by (simp add: dict_get_def dict_keys_def fun_eq_iff)
  have fields: "\<forall>k \<in> set minutes_fields.
      dict_get ?summary k =
        Some (case dict_get parsed k of
                Some v \<Rightarrow> v
              | None \<Rightarrow> if k = py_str ''summary'' then PyStr [] else PyList [])"
  proof
    fix k assume "k \<in> set minutes_fields"
    then have blank: "map_of blank_minutes k
        = Some (if k = py_str ''summary'' then PyStr [] else PyList [])"
      using dict_get_blank_minutes [of k] by (simp only: dict_get_def)
    show "dict_get ?summary k =
        Some (case dict_get parsed k of
                Some v \<Rightarrow> v
              | None \<Rightarrow> if k = py_str ''summary'' then PyStr [] else PyList [])"
    proof (cases "map_of parsed k")
      case None
      with blank show ?thesis by (simp only: get map_add_def dict_get_def option.case)
    next
      case (Some v)
      then show ?thesis by (simp only: get map_add_def dict_get_def option.case)
    qed
  qed
  have complete: "dict_get ?summary = dict_get parsed"
    if all: "set (dict_keys parsed) = set minutes_fields"
  proof
    fix k
    show "dict_get ?summary k = dict_get parsed k"
    proof (cases "map_of parsed k")
      case None
      then have "k \<notin> set (dict_keys parsed)"
        by (simp add: map_of_eq_None_iff dict_keys_def)
      with all have "k \<notin> set (dict_keys blank_minutes)"
        by (simp add: dict_keys_blank_minutes)
      then have "map_of blank_minutes k = None"
        by (simp add: map_of_eq_None_iff dict_keys_def)
      with None show ?thesis by (simp add: get map_add_def dict_get_def)
    next
      case (Some v)
      then show ?thesis by (simp add: get map_add_def dict_get_def)
    qed
  qed
  have same: "?summary = parsed" if order: "dict_keys parsed = minutes_fields"
  proof (rule alist_eqI)
    show "map fst ?summary = map fst parsed"
      using keys order by (simp add: dict_keys_def)
    show "distinct (map fst ?summary)"
      using keys distinct_minutes_fields by (simp add: dict_keys_def)
    show "map_of ?summary = map_of parsed"
      using complete order by (simp add: dict_get_def fun_eq_iff)
  qed
  from result keys fields complete same show ?thesis by blast
qed

lemma length_dict_update: "length d \<le> length (dict_update d other)"
proof (induction other arbitrary: d)
  case Nil
  show ?case by (simp add: dict_update_def)
next
  case (Cons kv other)
  have "length (map fst d) \<le> length (map fst (AList.update (fst kv) (snd kv) d))"
    by (simp only: update_keys split: if_split) simp
  then have "length d \<le> length (AList.update (fst kv) (snd kv) d)"
    by simp
  also have "\<dots> \<le> length (dict_update (AList.update (fst kv) (snd kv) d) other)"
    by (rule Cons.IH)
  finally show ?case by (simp add: dict_update_Cons)
qed

lemma summarize_parse_accepted:
  "json_loads raw_text = Inr parsed \<Longrightarrow>
   summarize_parse json_loads raw_text = dict_unpack blank_minutes parsed"
  by (cases parsed) (simp_all add: summarize_parse_def dict_unpack_def)

lemma summarize_parse_raises:
  "json_loads raw_text = Inl e \<Longrightarrow> \<forall>m. e \<noteq> JSONDecodeError m \<Longrightarrow>
   summarize_parse json_loads raw_text = Inl e"
  by (cases e) (simp_all add: summarize_parse_def)

lemma dict_unpack_blank_minutes_not_single:
  "dict_unpack blank_minutes parsed \<noteq> Inr [kv]"
proof (cases parsed)
  case (PyDict items)
  have "length blank_minutes \<le> length (dict_update blank_minutes items)"
    by (rule length_dict_update)
  then have "5 \<le> length (dict_update blank_minutes items)"
    by (simp add: blank_minutes_def)
  then have "dict_update blank_minutes items \<noteq> [kv]"
    by auto
  with PyDict show ?thesis by (simp add: dict_unpack_def)
qed (simp_all add: dict_unpack_def)

text \<open>
  Claim C3, amended. When \<^verbatim>\<open>json.loads\<close> raises \<^verbatim>\<open>JSONDecodeError\<close> on the response's text,
  \<open>summarize_meeting\<close> returns the dictionary whose only key is \<^verbatim>\<open>raw_response\<close>, and its
  value is the response's text, unchanged; and it returns that dictionary on no other text.
  The claim as the specification states it, for every text that is not valid JSON, does not
  hold: \<^verbatim>\<open>json.loads\<close> accepts some texts that are not JSON (\<^verbatim>\<open>NaN\<close>, \<^verbatim>\<open>Infinity\<close>,
  \<^verbatim>\<open>-Infinity\<close>), and then the merge is made or raises, and an exception of another class
  than \<^verbatim>\<open>JSONDecodeError\<close> is not caught (\<open>summarize_parse_accepted\<close>,
  \<open>summarize_parse_raises\<close>).
\<close>

theorem summarize_meeting_raw_response:
  assumes "client (summarize_request transcript) = Inr raw_text"
  shows "(json_loads raw_text = Inl (JSONDecodeError m)
          \<longrightarrow> fst (summarize_meeting json_loads client transcript log)
                = Inr [(py_str ''raw_response'', PyStr raw_text)])
       \<and> (fst (summarize_meeting json_loads client transcript log)
            = Inr [(py_str ''raw_response'', PyStr raw_text)]
          \<longrightarrow> (\<exists>msg. json_loads raw_text = Inl (JSONDecodeError msg)))"
proof (intro conjI impI)
  assume "json_loads raw_text = Inl (JSONDecodeError m)"
  with assms show "fst (summarize_meeting json_loads client transcript log)
      = Inr [(py_str ''raw_response'', PyStr raw_text)]"
    by (simp add: summarize_meeting_response summarize_parse_def)
next
  assume "fst (summarize_meeting json_loads client transcript log)
      = Inr [(py_str ''raw_response'', PyStr raw_text)]"
  with assms have fallback:
    "summarize_parse json_loads raw_text = Inr [(py_str ''raw_response'', PyStr raw_text)]"
    by (simp add: summarize_meeting_response)
  show "\<exists>msg. json_loads raw_text = Inl (JSONDecodeError msg)"
  proof (cases "json_loads raw_text")
    case (Inr parsed)
    with fallback dict_unpack_blank_minutes_not_single [of parsed] show ?thesis
      by (simp add: summarize_parse_accepted)
  next
    case (Inl e)
    show ?thesis
    proof (cases "\<forall>msg. e \<noteq> JSONDecodeError msg")
      case True
      with Inl fallback show ?thesis by (simp add: summarize_parse_raises)
    next
      case False
      with Inl show ?thesis by auto
    qed
  qed
qed

section \<open>Properties of the handlers\<close>

lemma sent_display [simp]: "sent (display el a) = sent a"
  by (simp add: display_def)

lemma session_display [simp]: "session (display el a) = session a"
  by (simp add: display_def)

lemma shown_display [simp]: "shown (display el a) = shown a @ [el]"
  by (simp add: display_def)

lemma dict_unpack_not_dict:
  "type_name parsed \<noteq> py_str ''dict'' \<Longrightarrow>
   dict_unpack d parsed
     = Inl (TypeError ([39] @ type_name parsed @ [39] @ py_str '' object is not a mapping''))"
  by (cases parsed) (simp_all add: dict_unpack_def)

lemma generate_try_raises:
  assumes "generate_try json_loads float_repr genai_Client transcript api_key a = (Some e, a')"
  shows "session a' = session a \<and> shown a' = shown a"
  using assms
  by (auto simp: generate_try_def display_def split: sum.splits prod.splits option.splits)

lemma generate_try_sent:
  "sent (snd (generate_try json_loads float_repr genai_Client transcript api_key a)) =
     (case get_genai_client genai_Client api_key of
        Inl e \<Rightarrow> sent a
      | Inr client \<Rightarrow> sent a @ [summarize_request (py_strip transcript)])"
  by (auto simp: generate_try_def summarize_meeting_def generate_content_def display_def
      split: sum.splits prod.splits option.splits)

text \<open>
  Claim C9. When the response's text is valid JSON but parses to a value that is not a
  dictionary (a list, a string, a number, a boolean, \<^verbatim>\<open>None\<close>), \<open>summarize_meeting\<close>
  returns neither the merged record nor the raw-text fallback: the merge raises
  \<^verbatim>\<open>TypeError\<close>, which the \<^verbatim>\<open>except json.JSONDecodeError\<close> clause does not catch; the
  exception reaches the handler, whose catch-all displays it and leaves the session state
  as it was.
\<close>

theorem not_a_mapping_propagates:
  assumes "py_strip transcript \<noteq> []" and "api_key \<noteq> []"
    and "genai_Client api_key = Inr client"
    and "client (summarize_request (py_strip transcript)) = Inr raw_text"
    and "json_loads raw_text = Inr parsed"
    and "type_name parsed \<noteq> py_str ''dict''"
  shows "fst (summarize_meeting json_loads client (py_strip transcript) log)
           = Inl (TypeError ([39] @ type_name parsed @ [39] @ py_str '' object is not a mapping''))
       \<and> generate_handler json_loads float_repr genai_Client True transcript api_key a
           = display
               (St_error (py_str ''Failed to generate minutes: ''
                  @ [39] @ type_name parsed @ [39] @ py_str '' object is not a mapping''))
               (a\<lparr>sent := sent a @ [summarize_request (py_strip transcript)]\<rparr>)"
proof -
  have parse: "summarize_parse json_loads raw_text
      = Inl (TypeError ([39] @ type_name parsed @ [39] @ py_str '' object is not a mapping''))"
    using assms(5,6) by (simp add: summarize_parse_def dict_unpack_not_dict)
  have gen: "summarize_meeting json_loads client (py_strip transcript) log
      = (Inl (TypeError ([39] @ type_name parsed @ [39] @ py_str '' object is not a mapping'')),
         log @ [summarize_request (py_strip transcript)])" for log
    using assms(4) parse by (simp add: summarize_meeting_response)
  show ?thesis
    using assms(1,2,3) gen
    by (simp add: generate_handler_def generate_try_def get_genai_client_def)
qed

text \<open>
  Claim C5. An exception of the network call is the result of \<open>summarize_meeting\<close> (it is
  not caught there); the handler catches it, displays \<^verbatim>\<open>Failed to generate minutes: \<close>
  followed by the exception's text, and leaves the session state, the Minutes record
  included, unchanged. The same holds for every exception that ends the \<^verbatim>\<open>try\<close> block.
\<close>

theorem network_exception_propagates:
  "(client (summarize_request t) = Inl e
      \<longrightarrow> summarize_meeting json_loads client t log = (Inl e, log @ [summarize_request t]))
   \<and> (py_strip transcript \<noteq> [] \<and> api_key \<noteq> [] \<and> genai_Client api_key = Inr client
        \<and> client (summarize_request (py_strip transcript)) = Inl e
      \<longrightarrow> generate_handler json_loads float_repr genai_Client True transcript api_key a
            = display (St_error (py_str ''Failed to generate minutes: '' @ exn_str e))
                (a\<lparr>sent := sent a @ [summarize_request (py_strip transcript)]\<rparr>)
        \<and> session (generate_handler json_loads float_repr genai_Client True transcript api_key a)
            = session a)
   \<and> (py_strip transcript \<noteq> [] \<and> api_key \<noteq> []
        \<and> generate_try json_loads float_repr genai_Client transcript api_key a = (Some exc, a')
      \<longrightarrow> session (generate_handler json_loads float_repr genai_Client True transcript api_key a)
            = session a
        \<and> shown (generate_handler json_loads float_repr genai_Client True transcript api_key a)
            = shown a @ [St_error (py_str ''Failed to generate minutes: '' @ exn_str exc)])"
proof -
  have gen: "summarize_meeting json_loads client t log = (Inl e, log @ [summarize_request t])"
    if "client (summarize_request t) = Inl e" for t log
    using that by (simp add: summarize_meeting_def generate_content_def)
  have handler: "generate_handler json_loads float_repr genai_Client True transcript api_key a
      = display (St_error (py_str ''Failed to generate minutes: '' @ exn_str e))
          (a\<lparr>sent := sent a @ [summarize_request (py_strip transcript)]\<rparr>)"
    if "py_strip transcript \<noteq> []" "api_key \<noteq> []" "genai_Client api_key = Inr client"
      "client (summarize_request (py_strip transcript)) = Inl e"
    using that gen [of "py_strip transcript" "sent a"]
    by (simp add: generate_handler_def generate_try_def get_genai_client_def)
  have caught:
    "session (generate_handler json_loads float_repr genai_Client True transcript api_key a)
       = session a
     \<and> shown (generate_handler json_loads float_repr genai_Client True transcript api_key a)
       = shown a @ [St_error (py_str ''Failed to generate minutes: '' @ exn_str exc)]"
    if "py_strip transcript \<noteq> []" "api_key \<noteq> []"
      "generate_try json_loads float_repr genai_Client transcript api_key a = (Some exc, a')"
    using that generate_try_raises [OF that(3)] by (simp add: generate_handler_def)
  from gen handler caught show ?thesis by simp
qed

text \<open>
  Claim C6. When the transcript is empty after \<^verbatim>\<open>strip()\<close> the handler displays a warning,
  and when the transcript is not empty but the key is, an error; in both cases no request
  is sent and the session state is unchanged. A request is sent only when the button was
  clicked, the stripped transcript is not empty and the key is not empty; then, once the
  client is built, exactly one request is sent, for the stripped transcript.
\<close>

theorem generate_guards:
  "(py_strip transcript = []
      \<longrightarrow> generate_handler json_loads float_repr genai_Client True transcript api_key a
          = display (St_warning (py_str ''Please provide a transcript before generating minutes.'')) a)
   \<and> (py_strip transcript \<noteq> [] \<and> api_key = []
      \<longrightarrow> generate_handler json_loads float_repr genai_Client True transcript api_key a
          = display (St_error
              (py_str ''No Gemini API key found. Provide it via config.json, the environment, ''
               @ py_str ''or Streamlit secrets.'')) a)
   \<and> (py_strip transcript = [] \<or> api_key = []
      \<longrightarrow> sent (generate_handler json_loads float_repr genai_Client clicked transcript api_key a)
            = sent a
        \<and> session (generate_handler json_loads float_repr genai_Client clicked transcript api_key a)
            = session a)
   \<and> (sent (generate_handler json_loads float_repr genai_Client clicked transcript api_key a)
         \<noteq> sent a
      \<longrightarrow> clicked \<and> py_strip transcript \<noteq> [] \<and> api_key \<noteq> [])
   \<and> (py_strip transcript \<noteq> [] \<and> api_key \<noteq> [] \<and> genai_Client api_key = Inr client
      \<longrightarrow> sent (generate_handler json_loads float_repr genai_Client True transcript api_key a)
            = sent a @ [summarize_request (py_strip transcript)])"
proof -
  have run: "sent (generate_handler json_loads float_repr genai_Client True transcript api_key a)
      = sent a @ [summarize_request (py_strip transcript)]"
    if "py_strip transcript \<noteq> []" "api_key \<noteq> []" "genai_Client api_key = Inr client"
    using that generate_try_sent [of json_loads float_repr genai_Client transcript api_key a]
    by (auto simp: generate_handler_def get_genai_client_def split: prod.splits option.splits)
  have guards: "sent (generate_handler json_loads float_repr genai_Client clicked transcript api_key a)
        = sent a
      \<and> session (generate_handler json_loads float_repr genai_Client clicked transcript api_key a)
        = session a"
    if "py_strip transcript = [] \<or> api_key = []"
    using that by (auto simp: generate_handler_def)
  from run guards show ?thesis
    by (auto simp: generate_handler_def)
qed

text \<open>
  Claim C7. Whatever the session state was, the clear action leaves the Minutes equal to the
  empty template (the five fields, each with its empty default), and the stored JSON string
  and the raw model output empty: the state of a session on its first run.
\<close>

theorem clear_resets_session:
  "session (clear_handler True a)
     = \<lparr>minutes = blank_minutes, raw_json = [], raw_response = PyStr []\<rparr>
   \<and> dict_keys (minutes (session (clear_handler True a))) = minutes_fields
   \<and> dict_get (minutes (session (clear_handler True a))) (py_str ''summary'') = Some (PyStr [])
   \<and> dict_get (minutes (session (clear_handler True a))) (py_str ''key_points'') = Some (PyList [])
   \<and> dict_get (minutes (session (clear_handler True a))) (py_str ''decisions'') = Some (PyList [])
   \<and> dict_get (minutes (session (clear_handler True a))) (py_str ''action_items'') = Some (PyList [])
   \<and> dict_get (minutes (session (clear_handler True a))) (py_str ''risks_open_questions'')
       = Some (PyList [])
   \<and> raw_json (session (clear_handler True a)) = []
   \<and> raw_response (session (clear_handler True a)) = PyStr []
   \<and> session (clear_handler True a)
       = init_session_state
           \<lparr>stored_minutes = None, stored_raw_json = None, stored_raw_response = None\<rparr>"
  by (simp add: clear_handler_def init_session_state_def dict_keys_blank_minutes)
     (simp add: blank_minutes_def dict_get_def py_str_def)

section \<open>Properties of the serialization and of the download\<close>

lemma indent_by_Nil [simp]: "indent_by n [] = []"
  by (simp add: indent_by_def)









lemma hex_digit_no_newline: "hex_digit d \<noteq> 10"
  by (simp add: hex_digit_def)









lemma escape_char_ascii_non_ascii: "0x80 \<le> c \<Longrightarrow> escape_char_ascii c \<noteq> [c]"
  by (auto simp: escape_char_ascii_def escape_dct_def py_str_def split: option.splits)


section \<open>The properties at the sample inputs\<close>

lemma strip_sample_transcript: "py_strip sample_transcript = sample_transcript"
  by (simp add: py_strip_def sample_transcript_def py_str_def py_isspace_def)

theorem summarize_meeting_merge_witness:
  "distinct (dict_keys sample_parsed)
   \<and> set (dict_keys sample_parsed) \<subseteq> set minutes_fields
   \<and> fst (summarize_meeting sample_json_loads (\<lambda>req. Inr sample_response) sample_transcript [])
     = Inr [(py_str ''summary'', PyStr (py_str ''Team planned v2 release.'')),
            (py_str ''key_points'', PyList []),
            (py_str ''decisions'', PyList []),
            (py_str ''action_items'',
             PyList [PyDict [(py_str ''owner'', PyStr (py_str ''Bob'')),
                             (py_str ''task'', PyStr (py_str ''Write release notes'')),
                             (py_str ''due'', PyStr (py_str ''Friday'')),
                             (py_str ''priority'', PyStr (py_str ''Medium''))]]),
            (py_str ''risks_open_questions'', PyList [])]"
proof -
  have keys: "distinct (dict_keys sample_parsed)"
    "set (dict_keys sample_parsed) \<subseteq> set minutes_fields"
    by (simp_all add: sample_parsed_def dict_keys_def minutes_fields_def py_str_def)
  have loads: "sample_json_loads sample_response = Inr (PyDict sample_parsed)"
    by (simp add: sample_json_loads_def)
  from summarize_meeting_merge [of "\<lambda>req. Inr sample_response" sample_transcript
      sample_response sample_json_loads sample_parsed "[]", OF refl loads keys]
  obtain summary where
    "fst (summarize_meeting sample_json_loads (\<lambda>req. Inr sample_response) sample_transcript [])
       = Inr summary"
    by blast
  moreover have
    "fst (summarize_meeting sample_json_loads (\<lambda>req. Inr sample_response) sample_transcript [])
       = Inr (dict_update blank_minutes sample_parsed)"
    using loads by (simp add: summarize_meeting_response summarize_parse_dict)
  moreover have "dict_update blank_minutes sample_parsed
     = [(py_str ''summary'', PyStr (py_str ''Team planned v2 release.'')),
            (py_str ''key_points'', PyList []),
            (py_str ''decisions'', PyList []),
            (py_str ''action_items'',
             PyList [PyDict [(py_str ''owner'', PyStr (py_str ''Bob'')),
                             (py_str ''task'', PyStr (py_str ''Write release notes'')),
                             (py_str ''due'', PyStr (py_str ''Friday'')),
                             (py_str ''priority'', PyStr (py_str ''Medium''))]]),
            (py_str ''risks_open_questions'', PyList [])]"
    by (simp add: dict_update_def blank_minutes_def sample_parsed_def py_str_def)
  ultimately show ?thesis using keys by simp
qed

theorem summarize_meeting_raw_response_witness:
  "sample_json_loads (py_str ''Sorry, I cannot summarize this.'')
     = Inl (JSONDecodeError (py_str ''Expecting value: line 1 column 1 (char 0)''))
   \<and> fst (summarize_meeting sample_json_loads
            (\<lambda>req. Inr (py_str ''Sorry, I cannot summarize this.'')) sample_transcript [])
     = Inr [(py_str ''raw_response'', PyStr (py_str ''Sorry, I cannot summarize this.''))]"
proof -
  have loads: "sample_json_loads (py_str ''Sorry, I cannot summarize this.'')
     = Inl (JSONDecodeError (py_str ''Expecting value: line 1 column 1 (char 0)''))"
    by (simp add: sample_json_loads_def sample_response_def py_str_def)
  from summarize_meeting_raw_response
    [of "\<lambda>req. Inr (py_str ''Sorry, I cannot summarize this.'')" sample_transcript
      "py_str ''Sorry, I cannot summarize this.''" sample_json_loads
      "py_str ''Expecting value: line 1 column 1 (char 0)''" "[]", OF refl]
    loads
  show ?thesis by simp
qed

text \<open>
  Claim C3 as the specification states it fails on the response whose text is \<^verbatim>\<open>NaN\<close>. The
  text is not valid JSON (no JSON value begins with \<^verbatim>\<open>N\<close>), \<^verbatim>\<open>json.loads\<close> reads it as the
  float NaN without raising, and \<open>summarize_meeting\<close> raises
  \<^verbatim>\<open>TypeError: 'float' object is not a mapping\<close> from the merge, where the claim has it return
  the dictionary of the raw text.
\<close>

theorem summarize_meeting_raw_response_counterexample:
  "\<not> json_text_start (py_str ''NaN'')
   \<and> sample_json_loads (py_str ''NaN'') = Inr (PyFloat 0x7FF8000000000000)
   \<and> fst (summarize_meeting sample_json_loads (\<lambda>req. Inr (py_str ''NaN'')) sample_transcript [])
       = Inl (TypeError ([39] @ py_str ''float'' @ [39] @ py_str '' object is not a mapping''))
   \<and> fst (summarize_meeting sample_json_loads (\<lambda>req. Inr (py_str ''NaN'')) sample_transcript [])
       \<noteq> Inr [(py_str ''raw_response'', PyStr (py_str ''NaN''))]"
proof -
  have start: "\<not> json_text_start (py_str ''NaN'')"
    by (simp add: json_text_start_def json_ws_def json_value_start_def py_str_def)
  have loads: "sample_json_loads (py_str ''NaN'') = Inr (PyFloat 0x7FF8000000000000)"
    by (simp add: sample_json_loads_def sample_response_def py_str_def)
  have raised:
    "fst (summarize_meeting sample_json_loads (\<lambda>req. Inr (py_str ''NaN'')) sample_transcript [])
       = Inl (TypeError ([39] @ py_str ''float'' @ [39] @ py_str '' object is not a mapping''))"
    by (simp add: summarize_meeting_def generate_content_def summarize_parse_def loads
        dict_unpack_def)
  from start loads raised show ?thesis by simp
qed

theorem not_a_mapping_propagates_witness:
  "sample_json_loads (py_str ''[]'') = Inr (PyList [])
   \<and> fst (summarize_meeting sample_json_loads (\<lambda>req. Inr (py_str ''[]''))
           (py_strip sample_transcript) [])
     = Inl (TypeError ([39] @ py_str ''list'' @ [39] @ py_str '' object is not a mapping''))
   \<and> generate_handler sample_json_loads (\<lambda>x. []) (\<lambda>key. Inr (\<lambda>req. Inr (py_str ''[]'')))
       True sample_transcript (py_str ''secret-key'') first_run
     = first_run
         \<lparr>shown := [St_error (py_str ''Failed to generate minutes: '' @ [39] @ py_str ''list''
                      @ [39] @ py_str '' object is not a mapping'')],
          sent := [summarize_request sample_transcript]\<rparr>"
proof -
  have loads: "sample_json_loads (py_str ''[]'') = Inr (PyList [])"
    by (simp add: sample_json_loads_def sample_response_def py_str_def)
  have nonempty: "py_strip sample_transcript \<noteq> []"
    by (simp add: strip_sample_transcript) (simp add: sample_transcript_def py_str_def)
  have key: "py_str ''secret-key'' \<noteq> []" by (simp add: py_str_def)
  have ty: "type_name (PyList []) \<noteq> py_str ''dict''" by (simp add: py_str_def)
  from not_a_mapping_propagates
    [of sample_transcript "py_str ''secret-key''" "\<lambda>key. Inr (\<lambda>req. Inr (py_str ''[]''))"
      "\<lambda>req. Inr (py_str ''[]'')" "py_str ''[]''" sample_json_loads "PyList []" "[]"
      "\<lambda>x. []" first_run,
     OF nonempty key refl refl loads ty]
    loads
  show ?thesis by (simp add: strip_sample_transcript display_def first_run_def)
qed

theorem network_exception_propagates_witness:
  "py_strip sample_transcript \<noteq> []
   \<and> summarize_meeting sample_json_loads
       (\<lambda>req. Inl (OtherException (py_str ''ServerError'') (py_str ''503 UNAVAILABLE'')))
       sample_transcript []
     = (Inl (OtherException (py_str ''ServerError'') (py_str ''503 UNAVAILABLE'')),
        [summarize_request sample_transcript])
   \<and> generate_handler sample_json_loads (\<lambda>x. [])
       (\<lambda>key. Inr (\<lambda>req. Inl (OtherException (py_str ''ServerError'') (py_str ''503 UNAVAILABLE''))))
       True sample_transcript (py_str ''secret-key'') first_run
     = first_run
         \<lparr>shown := [St_error (py_str ''Failed to generate minutes: 503 UNAVAILABLE'')],
          sent := [summarize_request sample_transcript]\<rparr>"
proof -
  have nonempty: "py_strip sample_transcript \<noteq> []"
    by (simp add: strip_sample_transcript) (simp add: sample_transcript_def py_str_def)
  have key: "py_str ''secret-key'' \<noteq> []" by (simp add: py_str_def)
  from network_exception_propagates
    [of "\<lambda>req. Inl (OtherException (py_str ''ServerError'') (py_str ''503 UNAVAILABLE''))"
      sample_transcript
      "OtherException (py_str ''ServerError'') (py_str ''503 UNAVAILABLE'')"
      sample_json_loads "[]" sample_transcript "py_str ''secret-key''"
      "\<lambda>key. Inr (\<lambda>req. Inl (OtherException (py_str ''ServerError'') (py_str ''503 UNAVAILABLE'')))"
      "\<lambda>x. []" first_run]
    nonempty key
  show ?thesis by (simp add: strip_sample_transcript display_def first_run_def py_str_def)
qed

theorem generate_guards_witness:
  "py_strip (py_str ''  '' @ [9, 10, 0xA0]) = []
   \<and> generate_handler sample_json_loads (\<lambda>x. []) (\<lambda>key. Inr (\<lambda>req. Inr sample_response))
       True (py_str ''  '' @ [9, 10, 0xA0]) (py_str ''secret-key'') first_run
     = first_run
         \<lparr>shown := [St_warning (py_str ''Please provide a transcript before generating minutes.'')]\<rparr>
   \<and> generate_handler sample_json_loads (\<lambda>x. []) (\<lambda>key. Inr (\<lambda>req. Inr sample_response))
       True sample_transcript [] first_run
     = first_run
         \<lparr>shown := [St_error
            (py_str ''No Gemini API key found. Provide it via config.json, the environment, ''
             @ py_str ''or Streamlit secrets.'')]\<rparr>
   \<and> sent (generate_handler sample_json_loads (\<lambda>x. []) (\<lambda>key. Inr (\<lambda>req. Inr sample_response))
       True sample_transcript (py_str ''secret-key'') first_run)
     = [summarize_request sample_transcript]"
proof -
  have blank: "py_strip (py_str ''  '' @ [9, 10, 0xA0]) = []"
    by (simp add: py_strip_def py_str_def py_isspace_def)
  have nonempty: "py_strip sample_transcript \<noteq> []"
    by (simp add: strip_sample_transcript) (simp add: sample_transcript_def py_str_def)
  have key: "py_str ''secret-key'' \<noteq> []" by (simp add: py_str_def)
  have one: "generate_handler sample_json_loads (\<lambda>x. []) (\<lambda>key. Inr (\<lambda>req. Inr sample_response))
       True (py_str ''  '' @ [9, 10, 0xA0]) (py_str ''secret-key'') first_run
     = display (St_warning (py_str ''Please provide a transcript before generating minutes.'')) first_run"
    using generate_guards
      [of "py_str ''  '' @ [9, 10, 0xA0]" sample_json_loads "\<lambda>x. []"
        "\<lambda>key. Inr (\<lambda>req. Inr sample_response)" "py_str ''secret-key''" first_run True
        "\<lambda>req. Inr sample_response"] blank
    by blast
  have two: "generate_handler sample_json_loads (\<lambda>x. []) (\<lambda>key. Inr (\<lambda>req. Inr sample_response))
       True sample_transcript [] first_run
     = display (St_error
            (py_str ''No Gemini API key found. Provide it via config.json, the environment, ''
             @ py_str ''or Streamlit secrets.'')) first_run"
    using generate_guards
      [of sample_transcript sample_json_loads "\<lambda>x. []"
        "\<lambda>key. Inr (\<lambda>req. Inr sample_response)" "[]" first_run True
        "\<lambda>req. Inr sample_response"] nonempty
    by blast
  have three: "sent (generate_handler sample_json_loads (\<lambda>x. [])
       (\<lambda>key. Inr (\<lambda>req. Inr sample_response))
       True sample_transcript (py_str ''secret-key'') first_run)
     = sent first_run @ [summarize_request (py_strip sample_transcript)]"
    using generate_guards
      [of sample_transcript sample_json_loads "\<lambda>x. []"
        "\<lambda>key. Inr (\<lambda>req. Inr sample_response)" "py_str ''secret-key''" first_run True
        "\<lambda>req. Inr sample_response"] nonempty key
    by blast
  from blank one two three show ?thesis
    by (simp add: strip_sample_transcript display_def first_run_def)
qed


end
